theory Spec2Isabelle
  imports Complex_Main
begin

section \<open>JavaScript values\<close>

text \<open>
  The service handles untyped data: request bodies, and whatever \<^verbatim>\<open>JSON.parse\<close>
  makes of a broker message. A value is a primitive, an array or an object. Arrays and
  objects carry a reference, their identity: JavaScript compares them by identity, never
  by content. The program never writes to a property of a value it received, so the
  content of an array or an object value is fixed; an object is the association list of
  its own properties, the first binding of a key being the one that is read.
\<close>

type_synonym ref = nat

datatype jsnumber = NaN | PosInfinity | NegInfinity | Finite rat

datatype jsval =
    JUndefined
  | JNull
  | JBool bool
  | JNum jsnumber
  | JStr string
  | JArr ref "jsval list"
  | JObj ref "(string \<times> jsval) list"

text \<open>A thrown error: its constructor's name and its \<^verbatim>\<open>message\<close>.\<close>

datatype js_error = JsError (err_name: string) (err_message: string)

text \<open>\<^verbatim>\<open>!v\<close> is \<open>\<not> truthy v\<close>.\<close>

fun truthy :: "jsval \<Rightarrow> bool" where
  "truthy JUndefined = False"
| "truthy JNull = False"
| "truthy (JBool b) = b"
| "truthy (JNum n) = (n \<noteq> NaN \<and> n \<noteq> Finite 0)"
| "truthy (JStr s) = (s \<noteq> [])"
| "truthy (JArr r xs) = True"
| "truthy (JObj r kvs) = True"

fun typeof :: "jsval \<Rightarrow> string" where
  "typeof JUndefined = ''undefined''"
| "typeof JNull = ''object''"
| "typeof (JBool b) = ''boolean''"
| "typeof (JNum n) = ''number''"
| "typeof (JStr s) = ''string''"
| "typeof (JArr r xs) = ''object''"
| "typeof (JObj r kvs) = ''object''"

fun nullish :: "jsval \<Rightarrow> bool" where
  "nullish JUndefined = True"
| "nullish JNull = True"
| "nullish v = False"

text \<open>
  \<open>prop_of v k\<close> is \<^verbatim>\<open>v.k\<close> for a value that is neither null nor undefined. The
  program reads the properties eventId, userId, eventType, timestamp and payload only;
  no primitive, array or prototype has a property of one of these names, so the read
  gives undefined except on an object that has the key.
\<close>

fun prop_of :: "jsval \<Rightarrow> string \<Rightarrow> jsval" where
  "prop_of (JObj r kvs) k = (case map_of kvs k of Some v \<Rightarrow> v | None \<Rightarrow> JUndefined)"
| "prop_of v k = JUndefined"

text \<open>\<^verbatim>\<open>v.k\<close> for any value: reading a property of null or undefined raises a TypeError.\<close>

definition quoted :: "string \<Rightarrow> string" where
  "quoted s = [CHR 0x27] @ s @ [CHR 0x27]"

definition get_prop :: "jsval \<Rightarrow> string \<Rightarrow> js_error + jsval" where
  "get_prop v k =
     (if nullish v
      then Inl (JsError ''TypeError'' (''Cannot read properties of '' @
                  (if v = JNull then ''null'' else ''undefined'') @
                  '' (reading '' @ quoted k @ '')''))
      else Inr (prop_of v k))"

text \<open>
  SameValueZero, the equality of \<^verbatim>\<open>Set.prototype.has\<close> and
  \<^verbatim>\<open>Array.prototype.includes\<close>: identity on arrays and objects, equality of values on
  primitives (NaN equal to itself, one zero).
\<close>

fun same_value_zero :: "jsval \<Rightarrow> jsval \<Rightarrow> bool" where
  "same_value_zero (JArr r xs) (JArr r' ys) = (r = r')"
| "same_value_zero (JObj r xs) (JObj r' ys) = (r = r')"
| "same_value_zero (JArr r xs) v = False"
| "same_value_zero (JObj r xs) v = False"
| "same_value_zero v (JArr r xs) = False"
| "same_value_zero v (JObj r xs) = False"
| "same_value_zero v v' = (v = v')"

fun Array_includes :: "jsval list \<Rightarrow> jsval \<Rightarrow> bool" where
  "Array_includes [] v = False"
| "Array_includes (x # xs) v = (same_value_zero x v \<or> Array_includes xs v)"

text \<open>\<^verbatim>\<open>s.includes(sub)\<close> on strings: \<open>sub\<close> occurs in \<open>s\<close>.\<close>

fun String_includes :: "string \<Rightarrow> string \<Rightarrow> bool" where
  "String_includes [] sub = (sub = [])"
| "String_includes (c # cs) sub = (take (length sub) (c # cs) = sub \<or> String_includes cs sub)"

text \<open>
  A template literal \<^verbatim>\<open>`... ${v} ...`\<close> converts \<open>v\<close> to a string. Every primitive
  converts. An object converts through its \<^verbatim>\<open>toString\<close> method and, failing that, its
  \<^verbatim>\<open>valueOf\<close>: a plain object inherits both, and the inherited \<^verbatim>\<open>toString\<close> answers; an
  own property named toString hides it, no value of this model is callable, the
  inherited \<^verbatim>\<open>valueOf\<close> returns the object itself, and the conversion raises a TypeError.
  An array converts by joining its elements, null and undefined as the empty string and
  every other element converted in turn. \<open>renders v\<close>: the conversion of \<open>v\<close> succeeds.
  The text produced is not modelled.
\<close>

fun renders :: "jsval \<Rightarrow> bool" where
  "renders (JObj r kvs) = (map_of kvs ''toString'' = None)"
| "renders (JArr r xs) = list_all renders xs"
| "renders v = True"

definition template_literal :: "jsval \<Rightarrow> js_error + unit" where
  "template_literal v =
     (if renders v then Inr ()
      else Inl (JsError ''TypeError'' ''Cannot convert object to primitive value''))"

fun join :: "string list \<Rightarrow> string \<Rightarrow> string" where
  "join [] sep = []"
| "join [x] sep = x"
| "join (x # y # ys) sep = x @ sep @ join (y # ys) sep"

section \<open>The validator (src/utils/validator.js)\<close>

definition VALID_EVENT_TYPES :: "string list" where
  "VALID_EVENT_TYPES = [''LOGIN'', ''LOGOUT'', ''PRODUCT_VIEW'']"

record validation =
  valid :: bool
  errors :: "string list"

definition validateEventPayload :: "jsval \<Rightarrow> validation" where
  "validateEventPayload event =
     (if \<not> truthy event
      then \<lparr>valid = False, errors = [''Event payload is required'']\<rparr>
      else
        let errors1 =
              (if \<not> truthy (prop_of event ''userId'') \<or> typeof (prop_of event ''userId'') \<noteq> ''string''
               then [''userId is required and must be a string'']
               else []);
            errors2 =
              (if \<not> truthy (prop_of event ''eventType'') \<or> typeof (prop_of event ''eventType'') \<noteq> ''string''
               then errors1 @ [''eventType is required and must be a string'']
               else if \<not> Array_includes (map JStr VALID_EVENT_TYPES) (prop_of event ''eventType'')
               then errors1 @ [''eventType must be one of: '' @ join VALID_EVENT_TYPES '', '']
               else errors1);
            errors3 =
              (if prop_of event ''payload'' \<noteq> JUndefined \<and> typeof (prop_of event ''payload'') \<noteq> ''object''
               then errors2 @ [''payload must be an object'']
               else errors2)
        in \<lparr>valid = (length errors3 = 0), errors = errors3\<rparr>)"

section \<open>The event store (src/services/eventStore.js)\<close>

text \<open>
  The store owns an array and a Set. \<^verbatim>\<open>getAllEvents\<close> hands an array to its caller, who
  may write to it, so arrays live in an explicit heap: \<open>arrays w ! a\<close> is the content of
  the array at address \<open>a\<close>, and allocation appends to the heap. \<open>events w\<close> is the
  address held by \<^verbatim>\<open>this.events\<close>. The Set is never handed out; it is the list of its
  members in insertion order. \<open>stdout w\<close> collects what \<^verbatim>\<open>console.log\<close> printed.

  The winston logger itself is not part of the model: what it writes changes neither
  the store nor the lines printed by \<^verbatim>\<open>console.log\<close>. The arguments of a logger call are
  evaluated by the caller, and that evaluation is kept wherever it can raise: a property
  read from a value that may be null or undefined, and a template literal that converts
  an id to a string.
\<close>

record console_line =
  action :: string
  line_eventId :: jsval
  line_userId :: jsval
  line_eventType :: jsval
  line_timestamp :: string

record world =
  arrays :: "jsval list list"
  events :: ref
  processedEventIds :: "jsval list"
  stdout :: "console_line list"

definition Set_has :: "jsval list \<Rightarrow> jsval \<Rightarrow> bool" where
  "Set_has s v = Array_includes s v"

definition Set_add :: "jsval list \<Rightarrow> jsval \<Rightarrow> jsval list" where
  "Set_add s v = (if Set_has s v then s else s @ [v])"

text \<open>The constructor: \<^verbatim>\<open>this.events = []; this.processedEventIds = new Set()\<close>.\<close>

definition EventStore_constructor :: world where
  "EventStore_constructor = \<lparr>arrays = [[]], events = 0, processedEventIds = [], stdout = []\<rparr>"

definition Array_push :: "ref \<Rightarrow> jsval \<Rightarrow> world \<Rightarrow> world" where
  "Array_push a v w = w\<lparr>arrays := (arrays w)[a := (arrays w ! a) @ [v]]\<rparr>"

text \<open>
  \<^verbatim>\<open>addEvent\<close> ends each of its last two branches with a logger call whose argument is a
  template literal over \<^verbatim>\<open>event.eventId\<close>, evaluated before the \<^verbatim>\<open>return\<close>: in the
  duplicate branch before anything has changed, in the storing branch after the push and
  the add. The first branch logs a constant string.
\<close>

definition addEvent :: "jsval \<Rightarrow> world \<Rightarrow> (js_error + bool) \<times> world" where
  "addEvent event w =
     (if \<not> truthy event \<or> \<not> truthy (prop_of event ''eventId'') then (Inr False, w)
      else if Set_has (processedEventIds w) (prop_of event ''eventId'')
      then (case template_literal (prop_of event ''eventId'') of
              Inl error \<Rightarrow> (Inl error, w)
            | Inr u \<Rightarrow> (Inr False, w))
      else
        let w' = (Array_push (events w) event w)
                   \<lparr>processedEventIds :=
                      Set_add (processedEventIds w) (prop_of event ''eventId'')\<rparr>
        in (case template_literal (prop_of event ''eventId'') of
              Inl error \<Rightarrow> (Inl error, w')
            | Inr u \<Rightarrow> (Inr True, w')))"

text \<open>\<^verbatim>\<open>[...this.events]\<close> allocates a new array with the same elements.\<close>

definition getAllEvents :: "world \<Rightarrow> ref \<times> world" where
  "getAllEvents w = (length (arrays w), w\<lparr>arrays := arrays w @ [arrays w ! events w]\<rparr>)"

definition getEventCount :: "world \<Rightarrow> nat" where
  "getEventCount w = length (arrays w ! events w)"

definition hasEvent :: "jsval \<Rightarrow> world \<Rightarrow> bool" where
  "hasEvent eventId w = Set_has (processedEventIds w) eventId"

text \<open>\<^verbatim>\<open>this.events = []\<close> allocates again; the Set is emptied in place.\<close>

definition clear :: "world \<Rightarrow> world" where
  "clear w = w\<lparr>arrays := arrays w @ [[]], events := length (arrays w), processedEventIds := []\<rparr>"

text \<open>
  The store's invariant. \<open>entry_has_id x e\<close>: the entry \<open>e\<close> of the sequence carries the
  id \<open>x\<close>. \<open>lockstep\<close>: every id of the Set is carried by exactly one entry, and every
  entry's id is in the Set.
\<close>

definition entry_has_id :: "jsval \<Rightarrow> jsval \<Rightarrow> bool" where
  "entry_has_id x e = same_value_zero (prop_of e ''eventId'') x"

definition lockstep :: "world \<Rightarrow> bool" where
  "lockstep w =
     (list_all (\<lambda>x. length (filter (entry_has_id x) (arrays w ! events w)) = 1)
        (processedEventIds w) \<and>
      list_all (\<lambda>e. Set_has (processedEventIds w) (prop_of e ''eventId''))
        (arrays w ! events w))"

text \<open>
  What a caller can do to an array it holds: replace its content (push, pop, splice,
  an indexed store and a change of length are all instances).
\<close>

definition Array_assign :: "ref \<Rightarrow> jsval list \<Rightarrow> world \<Rightarrow> world" where
  "Array_assign a xs w = w\<lparr>arrays := (arrays w)[a := xs]\<rparr>"

text \<open>
  \<^verbatim>\<open>this.events\<close> refers to an allocated array. This holds from the constructor on.
\<close>

definition wf_world :: "world \<Rightarrow> bool" where
  "wf_world w = (events w < length (arrays w))"

text \<open>
  The members of a Set are pairwise different under SameValueZero; \<open>store_inv\<close> is the
  form of the invariant that the operations preserve step by step: the Set lists the ids
  of the entries, in their order, without repetition.
\<close>

fun svz_distinct :: "jsval list \<Rightarrow> bool" where
  "svz_distinct [] = True"
| "svz_distinct (x # xs) = (\<not> Array_includes xs x \<and> svz_distinct xs)"

definition store_inv :: "world \<Rightarrow> bool" where
  "store_inv w =
     (wf_world w \<and>
      processedEventIds w = map (\<lambda>e. prop_of e ''eventId'') (arrays w ! events w) \<and>
      svz_distinct (processedEventIds w))"

section \<open>The consumer (services/kafkaConsumer.js)\<close>

text \<open>
  A delivered message: \<^verbatim>\<open>message.value\<close> is a Buffer or null, \<^verbatim>\<open>message.offset\<close> a
  string. \<^verbatim>\<open>JSON.parse\<close> and the clock are parameters; \<open>part\<close> is the source's
  \<^verbatim>\<open>partition\<close>.
\<close>

record kafka_message =
  msg_value :: "string option"
  msg_offset :: string

definition console_log :: "console_line \<Rightarrow> world \<Rightarrow> world" where
  "console_log l w = w\<lparr>stdout := stdout w @ [l]\<rparr>"

text \<open>The record that \<^verbatim>\<open>processEvent\<close> prints.\<close>

definition consumed_line :: "string \<Rightarrow> jsval \<Rightarrow> console_line" where
  "consumed_line now event =
     \<lparr>action = ''EVENT_CONSUMED'',
      line_eventId = prop_of event ''eventId'',
      line_userId = prop_of event ''userId'',
      line_eventType = prop_of event ''eventType'',
      line_timestamp = now\<rparr>"

text \<open>The body of \<^verbatim>\<open>processEvent\<close>'s try block.\<close>

definition processEvent_try :: "string \<Rightarrow> jsval \<Rightarrow> world \<Rightarrow> (js_error + bool) \<times> world" where
  "processEvent_try now event w =
     (case get_prop event ''eventId'' of
        Inl error \<Rightarrow> (Inl error, w)
      | Inr eventId \<Rightarrow>
          if \<not> truthy eventId \<or> \<not> truthy (prop_of event ''userId'') \<or>
             \<not> truthy (prop_of event ''eventType'')
          then (Inr False, w)
          else
            let w1 = console_log (consumed_line now event) w
            in addEvent event w1)"

text \<open>
  The catch block logs \<^verbatim>\<open>event.eventId\<close> and returns false; the read raises again when
  the event is null or undefined. An error raised by \<open>addEvent\<close> ends here: the call
  returns false, with the state \<open>addEvent\<close> left.
\<close>

definition processEvent :: "string \<Rightarrow> jsval \<Rightarrow> world \<Rightarrow> (js_error + bool) \<times> world" where
  "processEvent now event w =
     (case processEvent_try now event w of
        (Inl error, w') \<Rightarrow>
          (case get_prop event ''eventId'' of
             Inl error' \<Rightarrow> (Inl error', w')
           | Inr eventId \<Rightarrow> (Inr False, w'))
      | (Inr wasAdded, w') \<Rightarrow> (Inr wasAdded, w'))"

text \<open>
  The body of \<^verbatim>\<open>handleMessage\<close>'s try block. The first logger call reads
  \<^verbatim>\<open>event.eventId\<close>, \<^verbatim>\<open>event.userId\<close> and \<^verbatim>\<open>event.eventType\<close>.
\<close>

definition handleMessage_try ::
  "(string \<Rightarrow> js_error + jsval) \<Rightarrow> string \<Rightarrow> string \<Rightarrow> nat \<Rightarrow> kafka_message \<Rightarrow> world
     \<Rightarrow> (js_error + unit) \<times> world" where
  "handleMessage_try JSON_parse now topic part message w =
     (case msg_value message of
        None \<Rightarrow>
          (Inl (JsError ''TypeError'' ''Cannot read properties of null (reading 'toString')''), w)
      | Some eventString \<Rightarrow>
          (case JSON_parse eventString of
             Inl error \<Rightarrow> (Inl error, w)
           | Inr event \<Rightarrow>
               (case get_prop event ''eventId'' of
                  Inl error \<Rightarrow> (Inl error, w)
                | Inr eventId \<Rightarrow>
                    (case processEvent now event w of
                       (Inl error, w') \<Rightarrow> (Inl error, w')
                     | (Inr wasAdded, w') \<Rightarrow> (Inr (), w')))))"

text \<open>
  The catch block logs \<^verbatim>\<open>message.offset\<close> and
  \<^verbatim>\<open>message.value?.toString().substring(0, 100)\<close>, which is \<open>rawMessage\<close> and cannot
  raise, and does not rethrow.
\<close>

definition rawMessage :: "kafka_message \<Rightarrow> string option" where
  "rawMessage message = map_option (take 100) (msg_value message)"

definition handleMessage ::
  "(string \<Rightarrow> js_error + jsval) \<Rightarrow> string \<Rightarrow> string \<Rightarrow> nat \<Rightarrow> kafka_message \<Rightarrow> world
     \<Rightarrow> (js_error + unit) \<times> world" where
  "handleMessage JSON_parse now topic part message w =
     (case handleMessage_try JSON_parse now topic part message w of
        (Inl error, w') \<Rightarrow> (let raw = rawMessage message in (Inr (), w'))
      | (Inr u, w') \<Rightarrow> (Inr (), w'))"

text \<open>An event lacks a field: it has no fields at all, or reading the field gives undefined.\<close>

definition lacks :: "jsval \<Rightarrow> string \<Rightarrow> bool" where
  "lacks event k = (nullish event \<or> prop_of event k = JUndefined)"

text \<open>The states the process reaches from the constructor.\<close>

inductive reachable :: "world \<Rightarrow> bool" where
  reachable_new: "reachable EventStore_constructor"
| reachable_addEvent: "reachable w \<Longrightarrow> reachable (snd (addEvent event w))"
| reachable_getAllEvents: "reachable w \<Longrightarrow> reachable (snd (getAllEvents w))"
| reachable_clear: "reachable w \<Longrightarrow> reachable (clear w)"
| reachable_handleMessage:
    "reachable w \<Longrightarrow> reachable (snd (handleMessage JSON_parse now topic part message w))"

section \<open>The producer (services/kafkaProducer.js)\<close>

text \<open>
  \<^verbatim>\<open>this.producer.send\<close> is the broker: it answers a message with the partitions'
  metadata or rejects with an error. \<^verbatim>\<open>JSON.stringify\<close> is a parameter. Besides its
  result, \<open>publishEvent\<close> returns the messages it handed to \<^verbatim>\<open>send\<close>.
\<close>

record producer_message =
  msg_key :: jsval
  msg_payload :: string
  msg_headers :: "(string \<times> jsval) list"

record record_metadata =
  meta_partition :: nat
  meta_offset :: string

definition publishEvent_try ::
  "(jsval \<Rightarrow> string) \<Rightarrow> (producer_message \<Rightarrow> js_error + record_metadata list) \<Rightarrow> jsval
     \<Rightarrow> (js_error + record_metadata list) \<times> producer_message list" where
  "publishEvent_try JSON_stringify send event =
     (case get_prop event ''userId'' of
        Inl error \<Rightarrow> (Inl error, [])
      | Inr userId \<Rightarrow>
          let message =
                \<lparr>msg_key = userId,
                 msg_payload = JSON_stringify event,
                 msg_headers = [(''eventType'', prop_of event ''eventType''),
                                (''timestamp'', prop_of event ''timestamp'')]\<rparr>
          in (case send message of
                Inl error \<Rightarrow> (Inl error, [message])
              | Inr result \<Rightarrow>
                  (case result of
                     [] \<Rightarrow>
                       (Inl (JsError ''TypeError''
                               ''Cannot read properties of undefined (reading 'partition')''),
                        [message])
                   | r # rs \<Rightarrow> (Inr result, [message]))))"

definition publishEvent ::
  "(jsval \<Rightarrow> string) \<Rightarrow> (producer_message \<Rightarrow> js_error + record_metadata list) \<Rightarrow> bool \<Rightarrow> jsval
     \<Rightarrow> (js_error + record_metadata list) \<times> producer_message list" where
  "publishEvent JSON_stringify send isConnected event =
     (if \<not> isConnected
      then (Inl (JsError ''Error'' ''Producer is not connected to Kafka''), [])
      else
        (case publishEvent_try JSON_stringify send event of
           (Inl error, sent) \<Rightarrow>
             (case get_prop event ''eventId'' of
                Inl error' \<Rightarrow> (Inl error', sent)
              | Inr eventId \<Rightarrow> (Inl error, sent))
         | (Inr result, sent) \<Rightarrow> (Inr result, sent)))"

section \<open>The HTTP handlers (controllers/eventController.js)\<close>

datatype body_field = Str string | StrList "string list"

record response =
  statusCode :: nat
  json :: "(string \<times> body_field) list"

text \<open>
  The try block of \<^verbatim>\<open>generateEvent\<close>. \<open>uuid\<close> is what \<^verbatim>\<open>uuidv4()\<close> returns, \<open>now\<close> the
  clock's ISO string, \<open>fresh\<close> the first free reference for the three object literals.
\<close>

definition generateEvent_try ::
  "(jsval \<Rightarrow> string) \<Rightarrow> (producer_message \<Rightarrow> js_error + record_metadata list) \<Rightarrow> bool
     \<Rightarrow> string \<Rightarrow> string \<Rightarrow> ref \<Rightarrow> jsval \<Rightarrow> (js_error + response) \<times> producer_message list" where
  "generateEvent_try JSON_stringify send isConnected uuid now fresh req_body =
     (if nullish req_body
      then (Inl (JsError ''TypeError''
                   (''Cannot destructure property 'userId' of 'req.body' as it is '' @
                    (if req_body = JNull then ''null'' else ''undefined'') @ ''.'')), [])
      else
          let userId = prop_of req_body ''userId'';
              eventType = prop_of req_body ''eventType'';
              payload = prop_of req_body ''payload'';
              validation = validateEventPayload
                (JObj fresh [(''userId'', userId), (''eventType'', eventType), (''payload'', payload)])
          in if \<not> valid validation
             then (Inr \<lparr>statusCode = 400,
                        json = [(''error'', Str ''Validation failed''),
                                (''details'', StrList (errors validation))]\<rparr>, [])
             else
               let event = JObj (fresh + 1)
                     [(''eventId'', JStr uuid),
                      (''userId'', userId),
                      (''eventType'', eventType),
                      (''timestamp'', JStr now),
                      (''payload'', if truthy payload then payload else JObj (fresh + 2) [])]
               in (case publishEvent JSON_stringify send isConnected event of
                     (Inl error, sent) \<Rightarrow> (Inl error, sent)
                   | (Inr result, sent) \<Rightarrow>
                       (Inr \<lparr>statusCode = 201,
                             json = [(''message'', Str ''Event published successfully''),
                                     (''eventId'', Str uuid),
                                     (''timestamp'', Str now)]\<rparr>, sent)))"

definition generateEvent ::
  "(jsval \<Rightarrow> string) \<Rightarrow> (producer_message \<Rightarrow> js_error + record_metadata list) \<Rightarrow> bool
     \<Rightarrow> string \<Rightarrow> string \<Rightarrow> ref \<Rightarrow> jsval \<Rightarrow> response \<times> producer_message list" where
  "generateEvent JSON_stringify send isConnected uuid now fresh req_body =
     (case generateEvent_try JSON_stringify send isConnected uuid now fresh req_body of
        (Inl error, sent) \<Rightarrow>
          (if String_includes (err_message error) ''not connected''
           then (\<lparr>statusCode = 503,
                  json = [(''error'', Str ''Service unavailable''),
                          (''message'', Str ''Kafka producer is not available'')]\<rparr>, sent)
           else (\<lparr>statusCode = 500,
                  json = [(''error'', Str ''Internal server error''),
                          (''message'', Str ''Failed to publish event'')]\<rparr>, sent))
      | (Inr res, sent) \<Rightarrow> (res, sent))"

record health =
  status :: string
  timestamp :: string
  service :: string
  kafka_producer :: string
  eventStore_processedEvents :: nat

definition healthCheck :: "string \<Rightarrow> bool \<Rightarrow> world \<Rightarrow> nat \<times> health" where
  "healthCheck now isConnected w =
     (let health =
            \<lparr>status = ''ok'',
             timestamp = now,
             service = ''kafka-event-microservice'',
             kafka_producer = (if isConnected then ''connected'' else ''disconnected''),
             eventStore_processedEvents = getEventCount w\<rparr>;
          statusCode = (if isConnected then 200 else 503)
      in (statusCode, health))"

section \<open>Example inputs\<close>

definition login_event :: jsval where
  "login_event =
     JObj 7 [(''eventId'', JStr ''event-123''), (''userId'', JStr ''user-456''),
             (''eventType'', JStr ''LOGIN'')]"

text \<open>The store after the login event was added to the new store.\<close>

definition one_event :: world where
  "one_event = snd (addEvent login_event EventStore_constructor)"

definition no_eventId :: jsval where
  "no_eventId = JObj 3 [(''userId'', JStr ''user-456''), (''eventType'', JStr ''LOGIN'')]"

text \<open>An event whose eventId is present and is the empty string.\<close>

definition empty_id :: jsval where
  "empty_id =
     JObj 8 [(''eventId'', JStr []), (''userId'', JStr ''user-456''),
             (''eventType'', JStr ''LOGIN'')]"

text \<open>
  What \<^verbatim>\<open>JSON.parse\<close> makes of
  \<^verbatim>\<open>{"eventId":{"toString":null,"valueOf":null},"userId":"user-456","eventType":"LOGIN"}\<close>.
\<close>

definition unprintable_id :: jsval where
  "unprintable_id =
     JObj 9 [(''eventId'', JObj 10 [(''toString'', JNull), (''valueOf'', JNull)]),
             (''userId'', JStr ''user-456''), (''eventType'', JStr ''LOGIN'')]"

definition no_userId :: jsval where
  "no_userId = JObj 4 [(''eventId'', JStr ''event-9''), (''eventType'', JStr ''LOGIN'')]"

definition login_request :: jsval where
  "login_request = JObj 0 [(''userId'', JStr ''user-123''), (''eventType'', JStr ''LOGIN'')]"

definition string_payload :: jsval where
  "string_payload =
     JObj 0 [(''userId'', JStr ''u1''), (''eventType'', JStr ''LOGIN''), (''payload'', JStr ''x'')]"

definition array_payload :: jsval where
  "array_payload =
     JObj 0 [(''userId'', JStr ''u1''), (''eventType'', JStr ''LOGIN''),
             (''payload'', JArr 1 [JStr ''x''])]"

section \<open>Facts about values\<close>

lemma svz_refl: "same_value_zero v v"
  by (cases v) auto

lemma svz_sym: "same_value_zero a b = same_value_zero b a"
  by (cases a; cases b) auto

lemma svz_trans: "same_value_zero a b \<Longrightarrow> same_value_zero b c \<Longrightarrow> same_value_zero a c"
  by (cases a; cases b; cases c) auto

lemma has_prop_truthy: "prop_of v k \<noteq> JUndefined \<Longrightarrow> truthy v"
  by (cases v) auto

lemma Array_includes_append:
  "Array_includes (xs @ ys) v = (Array_includes xs v \<or> Array_includes ys v)"
  by (induction xs) auto

lemma Array_includes_iff: "Array_includes xs v = (\<exists>x \<in> set xs. same_value_zero x v)"
  by (induction xs) auto

lemma typeof_object_iff:
  "(typeof p \<noteq> ''object'') =
     (case p of JUndefined \<Rightarrow> True | JBool b \<Rightarrow> True | JNum n \<Rightarrow> True | JStr s \<Rightarrow> True
      | _ \<Rightarrow> False)"
  by (cases p) auto

section \<open>The validator\<close>

lemma validate_falsy:
  "\<not> truthy event \<Longrightarrow>
     validateEventPayload event = \<lparr>valid = False, errors = [''Event payload is required'']\<rparr>"
  by (simp add: validateEventPayload_def)

text \<open>
  C5, as the code has it. For a null and for an undefined candidate the validator
  returns at once: the result is invalid and its error list is the single string
  "Event payload is required". No other rule adds to the list.
\<close>

theorem validate_null_undefined:
  "validateEventPayload JNull
     = \<lparr>valid = False, errors = [''Event payload is required'']\<rparr> \<and>
   validateEventPayload JUndefined
     = \<lparr>valid = False, errors = [''Event payload is required'']\<rparr>"
  by (simp add: validateEventPayload_def)

text \<open>The same, read off field by field.\<close>

theorem validate_null_undefined_witness:
  "valid (validateEventPayload JNull) = False \<and>
   length (errors (validateEventPayload JNull)) = 1 \<and>
   errors (validateEventPayload JUndefined) = [''Event payload is required'']"
  using validate_null_undefined by simp

text \<open>C5 as stated names the error string "payload is required"; that is not the string returned.\<close>

theorem validate_null_message_counterexample:
  "errors (validateEventPayload JNull) \<noteq> [''payload is required'']"
  by (simp add: validateEventPayload_def)

text \<open>
  The payload rule is the test \<^verbatim>\<open>typeof event.payload !== 'object'\<close>: for a payload that
  is present, the error "payload must be an object" is in the result exactly when the
  payload is a boolean, a number or a string, and the candidate is then invalid.
\<close>

lemma validate_payload_typeof:
  assumes "prop_of event ''payload'' \<noteq> JUndefined"
  shows "(''payload must be an object'' \<in> set (errors (validateEventPayload event)))
           = (typeof (prop_of event ''payload'') \<noteq> ''object'') \<and>
         (typeof (prop_of event ''payload'') \<noteq> ''object'')
           = (case prop_of event ''payload'' of
                JBool b \<Rightarrow> True | JNum n \<Rightarrow> True | JStr s \<Rightarrow> True | _ \<Rightarrow> False) \<and>
         (''payload must be an object'' \<in> set (errors (validateEventPayload event))
            \<longrightarrow> \<not> valid (validateEventPayload event))"
proof -
  from assms have "truthy event" by (rule has_prop_truthy)
  with assms show ?thesis
    by (auto simp add: validateEventPayload_def VALID_EVENT_TYPES_def Let_def typeof_object_iff
          split: jsval.splits)
qed

text \<open>The candidate with the string payload "x" is invalid, with the payload error.\<close>

lemma validate_string_payload:
  "validateEventPayload string_payload
     = \<lparr>valid = False, errors = [''payload must be an object'']\<rparr>"
  by (simp add: string_payload_def validateEventPayload_def VALID_EVENT_TYPES_def)

text \<open>
  C4, at an array payload. The candidate with userId "u1", eventType "LOGIN" and the
  payload ["x"] has a payload that is present and is not a mapping, and the validator
  answers valid, with no error at all: \<^verbatim>\<open>typeof\<close> of an array is \<^verbatim>\<open>'object'\<close>.
\<close>

theorem validate_array_payload_accepted:
  "prop_of array_payload ''payload'' = JArr 1 [JStr ''x''] \<and>
   validateEventPayload array_payload = \<lparr>valid = True, errors = []\<rparr>"
  by (simp add: array_payload_def validateEventPayload_def VALID_EVENT_TYPES_def)

text \<open>Read off the result: valid, and the payload error is not among the errors.\<close>

theorem validate_array_payload_accepted_witness:
  "valid (validateEventPayload array_payload) \<and>
   ''payload must be an object'' \<notin> set (errors (validateEventPayload array_payload))"
  using validate_array_payload_accepted by simp

section \<open>The event store\<close>

text \<open>What \<open>addEvent\<close> returns and the state it leaves, each on its own.\<close>

lemma addEvent_result:
  "fst (addEvent event w) =
     (if \<not> truthy event \<or> \<not> truthy (prop_of event ''eventId'') then Inr False
      else if renders (prop_of event ''eventId'')
      then Inr (\<not> hasEvent (prop_of event ''eventId'') w)
      else Inl (JsError ''TypeError'' ''Cannot convert object to primitive value''))"
  by (simp add: addEvent_def template_literal_def hasEvent_def Let_def)

lemma addEvent_state:
  "snd (addEvent event w) =
     (if truthy event \<and> truthy (prop_of event ''eventId'') \<and>
         \<not> hasEvent (prop_of event ''eventId'') w
      then (Array_push (events w) event w)
             \<lparr>processedEventIds := processedEventIds w @ [prop_of event ''eventId'']\<rparr>
      else w)"
  by (simp add: addEvent_def template_literal_def hasEvent_def Set_add_def Let_def)

lemma addEvent_pushed:
  assumes "wf_world w"
  shows "arrays (Array_push (events w) event w) ! events w = (arrays w ! events w) @ [event]"
  using assms by (simp add: wf_world_def Array_push_def)

text \<open>
  C3, as the code has it. In a store whose array is allocated: an argument that is falsy
  (null and undefined among them) and an event whose eventId is falsy (absent, or present
  as null, false, 0, NaN or the empty string) make \<open>addEvent\<close> return false and leave the
  whole state as it was; so does an event whose eventId the Set already has, when the id
  converts to a string. Every other event whose id converts to a string makes it return
  true, appends the event at the end of the sequence and adds its eventId to the Set.
\<close>

theorem addEvent_cases:
  assumes "wf_world w"
  shows "(\<not> truthy event \<or> \<not> truthy (prop_of event ''eventId'')
          \<longrightarrow> addEvent event w = (Inr False, w)) \<and>
         (truthy event \<and> truthy (prop_of event ''eventId'') \<and>
            hasEvent (prop_of event ''eventId'') w \<and> renders (prop_of event ''eventId'')
          \<longrightarrow> addEvent event w = (Inr False, w)) \<and>
         (truthy event \<and> truthy (prop_of event ''eventId'') \<and>
            \<not> hasEvent (prop_of event ''eventId'') w \<and> renders (prop_of event ''eventId'')
          \<longrightarrow> fst (addEvent event w) = Inr True \<and>
              events (snd (addEvent event w)) = events w \<and>
              arrays (snd (addEvent event w)) ! events w = (arrays w ! events w) @ [event] \<and>
              processedEventIds (snd (addEvent event w))
                = processedEventIds w @ [prop_of event ''eventId''] \<and>
              hasEvent (prop_of event ''eventId'') (snd (addEvent event w)))"
proof -
  have "addEvent event w = (Inr False, w)"
    if "\<not> truthy event \<or> \<not> truthy (prop_of event ''eventId'')"
    using that by (auto simp add: prod_eq_iff addEvent_result addEvent_state)
  moreover have "addEvent event w = (Inr False, w)"
    if "truthy event \<and> truthy (prop_of event ''eventId'') \<and>
        hasEvent (prop_of event ''eventId'') w \<and> renders (prop_of event ''eventId'')"
    using that by (simp add: prod_eq_iff addEvent_result addEvent_state)
  moreover have "fst (addEvent event w) = Inr True \<and>
              events (snd (addEvent event w)) = events w \<and>
              arrays (snd (addEvent event w)) ! events w = (arrays w ! events w) @ [event] \<and>
              processedEventIds (snd (addEvent event w))
                = processedEventIds w @ [prop_of event ''eventId''] \<and>
              hasEvent (prop_of event ''eventId'') (snd (addEvent event w))"
    if "truthy event \<and> truthy (prop_of event ''eventId'') \<and>
        \<not> hasEvent (prop_of event ''eventId'') w \<and> renders (prop_of event ''eventId'')"
  proof -
    from addEvent_pushed [OF assms, of event]
    have "arrays (snd (addEvent event w)) ! events w = (arrays w ! events w) @ [event]"
      using that by (simp add: addEvent_state)
    moreover have "events (snd (addEvent event w)) = events w"
      using that by (simp add: addEvent_state Array_push_def)
    moreover have "hasEvent (prop_of event ''eventId'') (snd (addEvent event w))"
      using that
      by (simp add: addEvent_state hasEvent_def Set_has_def Array_includes_append svz_refl)
    ultimately show ?thesis
      using that by (simp add: addEvent_result addEvent_state)
  qed
  ultimately show ?thesis by blast
qed

text \<open>
  On the new store: null, an event without eventId and an event whose eventId is the
  empty string are refused, the login event is stored, and the same event is refused the
  second time.
\<close>

theorem addEvent_cases_witness:
  "wf_world EventStore_constructor \<and>
   addEvent JNull EventStore_constructor = (Inr False, EventStore_constructor) \<and>
   addEvent no_eventId EventStore_constructor = (Inr False, EventStore_constructor) \<and>
   addEvent empty_id EventStore_constructor = (Inr False, EventStore_constructor) \<and>
   renders (prop_of login_event ''eventId'') \<and>
   fst (addEvent login_event EventStore_constructor) = Inr True \<and>
   arrays (snd (addEvent login_event EventStore_constructor)) ! 0 = [login_event] \<and>
   processedEventIds (snd (addEvent login_event EventStore_constructor)) = [JStr ''event-123''] \<and>
   wf_world (snd (addEvent login_event EventStore_constructor)) \<and>
   hasEvent (JStr ''event-123'') (snd (addEvent login_event EventStore_constructor)) \<and>
   addEvent login_event (snd (addEvent login_event EventStore_constructor))
     = (Inr False, snd (addEvent login_event EventStore_constructor))"
proof -
  let ?w = "EventStore_constructor"
  let ?w1 = "snd (addEvent login_event ?w)"
  have wf: "wf_world ?w"
    by (simp add: wf_world_def EventStore_constructor_def)
  have id: "prop_of login_event ''eventId'' = JStr ''event-123''" and t: "truthy login_event"
    by (simp_all add: login_event_def)
  have r: "renders (prop_of login_event ''eventId'')"
    by (simp add: id)
  have new: "\<not> hasEvent (JStr ''event-123'') ?w"
    by (simp add: hasEvent_def Set_has_def EventStore_constructor_def)
  have absent: "\<not> truthy (prop_of no_eventId ''eventId'')"
    by (simp add: no_eventId_def)
  have empty: "\<not> truthy (prop_of empty_id ''eventId'')"
    by (simp add: empty_id_def)
  from addEvent_cases [OF wf, of JNull] have 1: "addEvent JNull ?w = (Inr False, ?w)"
    by simp
  from addEvent_cases [OF wf, of no_eventId] absent
  have 2: "addEvent no_eventId ?w = (Inr False, ?w)"
    by simp
  from addEvent_cases [OF wf, of empty_id] empty
  have 3: "addEvent empty_id ?w = (Inr False, ?w)"
    by simp
  from addEvent_cases [OF wf, of login_event] id t new
  have 4: "fst (addEvent login_event ?w) = Inr True"
    and 5: "arrays ?w1 ! events ?w = (arrays ?w ! events ?w) @ [login_event]"
    and 6: "processedEventIds ?w1 = processedEventIds ?w @ [JStr ''event-123'']"
    and 7: "hasEvent (JStr ''event-123'') ?w1"
    by simp_all
  have wf1: "wf_world ?w1"
    by (simp add: wf_world_def addEvent_state Array_push_def EventStore_constructor_def)
  from addEvent_cases [OF wf1, of login_event] id t 7
  have 8: "addEvent login_event ?w1 = (Inr False, ?w1)"
    by simp
  from 5 have stored: "arrays ?w1 ! 0 = [login_event]"
    by (simp add: EventStore_constructor_def)
  from 6 have ids: "processedEventIds ?w1 = [JStr ''event-123'']"
    by (simp add: EventStore_constructor_def)
  from wf 1 2 3 r 4 stored ids wf1 7 8 show ?thesis by blast
qed

text \<open>
  C3 as stated fails twice on the new store. The event whose eventId is the empty string
  does not lack an eventId and its id is not in the store, yet \<open>addEvent\<close> returns false
  and stores nothing. For the event whose eventId is an object with an own toString
  property, \<open>addEvent\<close> returns neither true nor false: it raises a TypeError, after it
  has stored the event.
\<close>

theorem addEvent_cases_counterexample:
  "\<not> lacks empty_id ''eventId'' \<and>
   \<not> hasEvent (prop_of empty_id ''eventId'') EventStore_constructor \<and>
   addEvent empty_id EventStore_constructor = (Inr False, EventStore_constructor) \<and>
   \<not> lacks unprintable_id ''eventId'' \<and>
   \<not> hasEvent (prop_of unprintable_id ''eventId'') EventStore_constructor \<and>
   fst (addEvent unprintable_id EventStore_constructor)
     = Inl (JsError ''TypeError'' ''Cannot convert object to primitive value'') \<and>
   getEventCount (snd (addEvent unprintable_id EventStore_constructor)) = 1"
  by (simp add: lacks_def empty_id_def unprintable_id_def hasEvent_def Set_has_def
        EventStore_constructor_def addEvent_def template_literal_def Set_add_def Array_push_def
        getEventCount_def Let_def)

text \<open>
  C2, as the code has it. For an event whose eventId is truthy, is not in the store yet
  and converts to a string, the first \<open>addEvent\<close> returns true, the second, on the state
  the first one left, returns false, and the count is then one more than before the first
  call.
\<close>

theorem addEvent_twice:
  assumes "wf_world w" and "truthy event" and "truthy (prop_of event ''eventId'')"
    and "\<not> hasEvent (prop_of event ''eventId'') w"
    and "renders (prop_of event ''eventId'')"
  shows "(case addEvent event w of (first, w1) \<Rightarrow>
            (case addEvent event w1 of (second, w2) \<Rightarrow>
               first = Inr True \<and> second = Inr False \<and>
               getEventCount w2 = getEventCount w + 1))"
proof -
  let ?w1 = "snd (addEvent event w)"
  from assms have first: "fst (addEvent event w) = Inr True"
    by (simp add: addEvent_result)
  from assms have has: "hasEvent (prop_of event ''eventId'') ?w1"
    by (simp add: addEvent_state hasEvent_def Set_has_def Array_push_def Array_includes_append
          svz_refl)
  from assms has have second: "fst (addEvent event ?w1) = Inr False"
    by (simp add: addEvent_result)
  from has have same: "snd (addEvent event ?w1) = ?w1"
    by (simp add: addEvent_state)
  from addEvent_pushed [OF assms(1), of event] assms
  have "getEventCount ?w1 = getEventCount w + 1"
    by (simp add: addEvent_state getEventCount_def Array_push_def)
  with first second same show ?thesis
    by (simp add: split_beta)
qed

theorem addEvent_twice_witness:
  "wf_world EventStore_constructor \<and>
   truthy login_event \<and>
   truthy (prop_of login_event ''eventId'') \<and>
   \<not> hasEvent (prop_of login_event ''eventId'') EventStore_constructor \<and>
   renders (prop_of login_event ''eventId'') \<and>
   getEventCount EventStore_constructor = 0 \<and>
   fst (addEvent login_event EventStore_constructor) = Inr True \<and>
   fst (addEvent login_event (snd (addEvent login_event EventStore_constructor))) = Inr False \<and>
   getEventCount (snd (addEvent login_event (snd (addEvent login_event EventStore_constructor)))) = 1"
proof -
  have wf: "wf_world EventStore_constructor"
    by (simp add: wf_world_def EventStore_constructor_def)
  have t: "truthy login_event" and tid: "truthy (prop_of login_event ''eventId'')"
    and r: "renders (prop_of login_event ''eventId'')"
    by (simp_all add: login_event_def)
  have new: "\<not> hasEvent (prop_of login_event ''eventId'') EventStore_constructor"
    by (simp add: hasEvent_def Set_has_def EventStore_constructor_def)
  have zero: "getEventCount EventStore_constructor = 0"
    by (simp add: getEventCount_def EventStore_constructor_def)
  from addEvent_twice [OF wf t tid new r] zero wf t tid new r show ?thesis
    by (simp split: prod.splits)
qed

text \<open>
  C2 as stated fails twice on the new store. The event whose eventId is the empty string
  has an eventId that the store does not have, yet both calls return false and the count
  stays 0. For the event whose eventId is an object with an own toString property, both
  calls raise a TypeError, the first one after it has stored the event.
\<close>

theorem addEvent_twice_counterexample:
  "prop_of empty_id ''eventId'' = JStr [] \<and>
   \<not> hasEvent (JStr []) EventStore_constructor \<and>
   fst (addEvent empty_id EventStore_constructor) = Inr False \<and>
   getEventCount (snd (addEvent empty_id (snd (addEvent empty_id EventStore_constructor)))) = 0 \<and>
   truthy (prop_of unprintable_id ''eventId'') \<and>
   \<not> hasEvent (prop_of unprintable_id ''eventId'') EventStore_constructor \<and>
   fst (addEvent unprintable_id EventStore_constructor)
     = Inl (JsError ''TypeError'' ''Cannot convert object to primitive value'') \<and>
   fst (addEvent unprintable_id (snd (addEvent unprintable_id EventStore_constructor)))
     = Inl (JsError ''TypeError'' ''Cannot convert object to primitive value'')"
  by (simp add: empty_id_def unprintable_id_def hasEvent_def Set_has_def
        EventStore_constructor_def addEvent_def template_literal_def Set_add_def Array_push_def
        getEventCount_def Let_def)

text \<open>
  C9. \<open>getAllEvents\<close> returns an array \<open>a\<close> that is not the store's own and holds the
  stored events in their order. Whatever the caller then writes into \<open>a\<close> (\<open>ys\<close> is any
  new content), the store's address, its sequence and its Set are as before: the count is
  unchanged and the next \<open>getAllEvents\<close> returns the original events again.
\<close>

theorem getAllEvents_copy:
  assumes "wf_world w"
  shows "(case getAllEvents w of (a, w1) \<Rightarrow>
            a \<noteq> events w1 \<and>
            arrays w1 ! a = arrays w ! events w \<and>
            (\<forall>ys. case getAllEvents (Array_assign a ys w1) of (b, w2) \<Rightarrow>
                    arrays w2 ! b = arrays w ! events w \<and>
                    getEventCount (Array_assign a ys w1) = getEventCount w \<and>
                    events (Array_assign a ys w1) = events w \<and>
                    arrays (Array_assign a ys w1) ! events w = arrays w ! events w \<and>
                    processedEventIds (Array_assign a ys w1) = processedEventIds w))"
  using assms
  by (auto simp add: getAllEvents_def Array_assign_def wf_world_def getEventCount_def nth_append)

text \<open>
  One event stored; the caller empties the array it got (address 1); the count is still
  1 and the next copy holds the event.
\<close>

theorem getAllEvents_copy_witness:
  "wf_world one_event \<and>
   getEventCount one_event = 1 \<and>
   fst (getAllEvents one_event) = 1 \<and>
   arrays (snd (getAllEvents one_event)) ! 1 = [login_event] \<and>
   arrays (Array_assign 1 [] (snd (getAllEvents one_event))) ! 1 = [] \<and>
   getEventCount (Array_assign 1 [] (snd (getAllEvents one_event))) = 1 \<and>
   arrays (snd (getAllEvents (Array_assign 1 [] (snd (getAllEvents one_event)))))
     ! fst (getAllEvents (Array_assign 1 [] (snd (getAllEvents one_event))))
     = [login_event]"
proof -
  have wf: "wf_world one_event"
    by (simp add: one_event_def wf_world_def addEvent_state Array_push_def
          EventStore_constructor_def)
  have a: "fst (getAllEvents one_event) = 1"
    by (simp add: one_event_def getAllEvents_def addEvent_state Array_push_def
          EventStore_constructor_def)
  have stored: "arrays one_event ! events one_event = [login_event]"
    by (simp add: one_event_def addEvent_state Array_push_def EventStore_constructor_def
          login_event_def hasEvent_def Set_has_def)
  have emptied: "arrays (Array_assign 1 [] (snd (getAllEvents one_event))) ! 1 = []"
    by (simp add: one_event_def getAllEvents_def addEvent_state Array_push_def Array_assign_def
          EventStore_constructor_def)
  from getAllEvents_copy [OF wf] a stored
  have "arrays (snd (getAllEvents one_event)) ! 1 = [login_event] \<and>
        getEventCount (Array_assign 1 [] (snd (getAllEvents one_event))) = getEventCount one_event \<and>
        arrays (snd (getAllEvents (Array_assign 1 [] (snd (getAllEvents one_event)))))
          ! fst (getAllEvents (Array_assign 1 [] (snd (getAllEvents one_event))))
          = [login_event]"
    by (simp add: split_beta)
  moreover from stored have "getEventCount one_event = 1"
    by (simp add: getEventCount_def)
  ultimately show ?thesis using wf a emptied by simp
qed

subsection \<open>The invariant\<close>

lemma svz_distinct_snoc:
  "svz_distinct (xs @ [x]) = (svz_distinct xs \<and> \<not> Array_includes xs x)"
  by (induction xs) (auto simp add: Array_includes_append svz_sym)

lemma count_absent:
  "\<not> Array_includes xs x \<Longrightarrow> filter (\<lambda>y. same_value_zero y x) xs = []"
  by (induction xs) auto

lemma count_once:
  "svz_distinct xs \<Longrightarrow> Array_includes xs x \<Longrightarrow>
     length (filter (\<lambda>y. same_value_zero y x) xs) = 1"
proof (induction xs)
  case Nil
  then show ?case by simp
next
  case (Cons a xs)
  show ?case
  proof (cases "same_value_zero a x")
    case True
    have "\<not> Array_includes xs x"
    proof
      assume "Array_includes xs x"
      then obtain y where y: "y \<in> set xs" "same_value_zero y x"
        by (auto simp add: Array_includes_iff)
      from True have "same_value_zero x a" by (simp add: svz_sym)
      with y have "same_value_zero y a" by (blast intro: svz_trans)
      with y Cons.prems show False by (auto simp add: Array_includes_iff)
    qed
    with True show ?thesis by (simp add: count_absent)
  next
    case False
    with Cons show ?thesis by auto
  qed
qed

lemma store_inv_lockstep:
  assumes "store_inv w"
  shows "lockstep w"
proof -
  let ?evs = "arrays w ! events w"
  let ?ids = "processedEventIds w"
  from assms have ids: "?ids = map (\<lambda>e. prop_of e ''eventId'') ?evs" and d: "svz_distinct ?ids"
    unfolding store_inv_def by blast+
  have f: "\<And>x. length (filter (entry_has_id x) ?evs)
              = length (filter (\<lambda>y. same_value_zero y x) ?ids)"
    by (subst ids) (simp add: filter_map comp_def entry_has_id_def [abs_def])
  have 1: "list_all (\<lambda>x. length (filter (entry_has_id x) ?evs) = 1) ?ids"
    unfolding list_all_iff f
  proof
    fix x assume "x \<in> set ?ids"
    then have "Array_includes ?ids x" by (auto simp add: Array_includes_iff intro: svz_refl)
    with d show "length (filter (\<lambda>y. same_value_zero y x) ?ids) = 1" by (rule count_once)
  qed
  have 2: "list_all (\<lambda>e. Set_has ?ids (prop_of e ''eventId'')) ?evs"
    unfolding list_all_iff Set_has_def
  proof
    fix e assume "e \<in> set ?evs"
    then have "prop_of e ''eventId'' \<in> set ?ids" by (subst ids) simp
    then show "Array_includes ?ids (prop_of e ''eventId'')"
      by (auto simp add: Array_includes_iff intro: svz_refl)
  qed
  from 1 2 show ?thesis by (simp add: lockstep_def)
qed

lemma store_inv_new: "store_inv EventStore_constructor"
  by (simp add: store_inv_def wf_world_def EventStore_constructor_def)

lemma store_inv_addEvent: "store_inv w \<Longrightarrow> store_inv (snd (addEvent event w))"
  by (auto simp add: store_inv_def wf_world_def addEvent_state Array_push_def hasEvent_def
        Set_has_def svz_distinct_snoc)

lemma store_inv_getAllEvents: "store_inv w \<Longrightarrow> store_inv (snd (getAllEvents w))"
  by (auto simp add: store_inv_def wf_world_def getAllEvents_def nth_append)

lemma store_inv_clear: "store_inv w \<Longrightarrow> store_inv (clear w)"
  by (auto simp add: store_inv_def wf_world_def clear_def nth_append)

lemma store_inv_console_log: "store_inv (console_log l w) = store_inv w"
  by (simp add: store_inv_def wf_world_def console_log_def)

lemma processEvent_state:
  "snd (processEvent now event w) =
     (if nullish event \<or> \<not> truthy (prop_of event ''eventId'') \<or>
         \<not> truthy (prop_of event ''userId'') \<or> \<not> truthy (prop_of event ''eventType'')
      then w
      else snd (addEvent event (console_log (consumed_line now event) w)))"
  by (auto simp add: processEvent_def processEvent_try_def get_prop_def Let_def
        split: sum.splits prod.splits)

lemma processEvent_result:
  "fst (processEvent now event w) =
     (if nullish event then fst (processEvent_try now event w)
      else if \<not> truthy (prop_of event ''eventId'') \<or> \<not> truthy (prop_of event ''userId'') \<or>
              \<not> truthy (prop_of event ''eventType'')
      then Inr False
      else (case fst (addEvent event (console_log (consumed_line now event) w)) of
              Inl error \<Rightarrow> Inr False
            | Inr wasAdded \<Rightarrow> Inr wasAdded))"
  by (auto simp add: processEvent_def processEvent_try_def get_prop_def Let_def
        split: sum.splits prod.splits)

lemma store_inv_processEvent: "store_inv w \<Longrightarrow> store_inv (snd (processEvent now event w))"
  by (simp add: processEvent_state store_inv_console_log store_inv_addEvent)

lemma store_inv_processEvent_pair:
  "store_inv w \<Longrightarrow> processEvent now event w = (r, w') \<Longrightarrow> store_inv w'"
  using store_inv_processEvent [of w now event] by simp

lemma store_inv_handleMessage:
  "store_inv w \<Longrightarrow> store_inv (snd (handleMessage JSON_parse now topic part message w))"
  by (auto simp add: handleMessage_def handleMessage_try_def
        split: sum.splits prod.splits option.splits dest: store_inv_processEvent_pair)

lemma reachable_store_inv: "reachable w \<Longrightarrow> store_inv w"
  by (induction rule: reachable.induct)
    (simp_all add: store_inv_new store_inv_addEvent store_inv_getAllEvents store_inv_clear
      store_inv_handleMessage)

lemma reachable_wf_world: "reachable w \<Longrightarrow> wf_world w"
  using reachable_store_inv [of w] by (simp add: store_inv_def)

text \<open>
  C8. In every state reached from the constructor by \<open>addEvent\<close>, \<open>getAllEvents\<close>,
  \<open>clear\<close> and the consumer's message handling, the Set and the sequence are in lockstep:
  every id of the Set is the eventId of exactly one entry, every entry's eventId is in
  the Set, and the two have the same size. \<open>addEvent\<close>, \<open>clear\<close> and \<open>getAllEvents\<close> lead
  to a state in lockstep again; \<open>hasEvent\<close> and \<open>getEventCount\<close> return no state and
  change none. After \<open>clear\<close> both are empty.
\<close>

theorem store_lockstep:
  assumes "reachable w"
  shows "lockstep w \<and>
         length (processedEventIds w) = getEventCount w \<and>
         lockstep (snd (addEvent event w)) \<and>
         lockstep (clear w) \<and>
         lockstep (snd (getAllEvents w)) \<and>
         getEventCount (clear w) = 0 \<and> processedEventIds (clear w) = []"
proof -
  from assms have i: "store_inv w" by (rule reachable_store_inv)
  have "length (processedEventIds w) = getEventCount w"
    using i by (simp add: store_inv_def getEventCount_def)
  moreover have "getEventCount (clear w) = 0 \<and> processedEventIds (clear w) = []"
    by (simp add: clear_def getEventCount_def)
  ultimately show ?thesis
    using i by (simp add: store_inv_lockstep store_inv_addEvent store_inv_clear store_inv_getAllEvents)
qed

text \<open>The state after one \<open>addEvent\<close> on the new store is reachable and in lockstep.\<close>

theorem store_lockstep_witness:
  "reachable one_event \<and>
   lockstep one_event \<and>
   getEventCount one_event = 1 \<and>
   processedEventIds one_event = [JStr ''event-123''] \<and>
   lockstep (snd (addEvent login_event one_event)) \<and>
   lockstep (clear one_event)"
proof -
  have r: "reachable one_event"
    unfolding one_event_def by (rule reachable_addEvent [OF reachable_new])
  have ids: "processedEventIds one_event = [JStr ''event-123'']"
    by (simp add: one_event_def addEvent_state login_event_def EventStore_constructor_def
          hasEvent_def Set_has_def Array_push_def)
  from store_lockstep [OF r, of login_event] ids r show ?thesis by simp
qed

section \<open>The consumer\<close>

lemma addEvent_stdout: "stdout (snd (addEvent event w)) = stdout w"
  by (simp add: addEvent_state Array_push_def)

lemma processEvent_falsy:
  assumes "\<not> nullish event"
    and "\<not> truthy (prop_of event ''eventId'') \<or> \<not> truthy (prop_of event ''userId'') \<or>
         \<not> truthy (prop_of event ''eventType'')"
  shows "processEvent now event w = (Inr False, w)"
  using assms by (auto simp add: processEvent_def processEvent_try_def get_prop_def)

text \<open>
  An event with the three fields is printed whether or not the store has its id: the
  line goes out before \<open>addEvent\<close> is called.
\<close>

lemma processEvent_announces:
  assumes "truthy (prop_of event ''eventId'')" and "truthy (prop_of event ''userId'')"
    and "truthy (prop_of event ''eventType'')"
  shows "stdout (snd (processEvent now event w)) = stdout w @ [consumed_line now event]"
proof -
  from assms(1) have "truthy event" by (cases event) auto
  then have "\<not> nullish event" by (cases event) auto
  with assms show ?thesis
    by (simp add: processEvent_state addEvent_stdout console_log_def)
qed

text \<open>
  An error raised by \<open>addEvent\<close> is caught in \<open>processEvent\<close>: for the event whose id does
  not convert to a string the call returns false, after the line was printed and the
  event stored.
\<close>

lemma processEvent_catches_addEvent:
  "fst (processEvent ''t1'' unprintable_id EventStore_constructor) = Inr False \<and>
   length (stdout (snd (processEvent ''t1'' unprintable_id EventStore_constructor))) = 1 \<and>
   getEventCount (snd (processEvent ''t1'' unprintable_id EventStore_constructor)) = 1"
  by (simp add: processEvent_def processEvent_try_def get_prop_def unprintable_id_def
        EventStore_constructor_def console_log_def consumed_line_def addEvent_def
        template_literal_def Set_has_def Set_add_def Array_push_def getEventCount_def Let_def)

lemma handleMessage_returns: "fst (handleMessage JSON_parse now topic part message w) = Inr ()"
  by (simp add: handleMessage_def split: prod.splits sum.splits option.splits)

lemma handleMessage_falsy:
  assumes "msg_value message = Some s" and "JSON_parse s = Inr event"
    and "nullish event \<or> \<not> truthy (prop_of event ''eventId'') \<or>
         \<not> truthy (prop_of event ''userId'') \<or> \<not> truthy (prop_of event ''eventType'')"
  shows "handleMessage JSON_parse now topic part message w = (Inr (), w)"
proof (cases "nullish event")
  case True
  with assms(1,2) show ?thesis
    by (simp add: handleMessage_def handleMessage_try_def get_prop_def split: option.splits)
next
  case False
  with assms(3) have "processEvent now event w = (Inr False, w)"
    by (simp add: processEvent_falsy)
  with False assms(1,2) show ?thesis
    by (simp add: handleMessage_def handleMessage_try_def get_prop_def split: option.splits)
qed

text \<open>
  C1, at a message delivered twice. The login event is processed on the new store and
  then again: the first call returns true, the second returns false, the store holds one
  event, and standard output holds two EVENT_CONSUMED lines for the id event-123.
\<close>

theorem duplicate_delivery_announced_twice:
  "fst (processEvent ''t1'' login_event EventStore_constructor) = Inr True \<and>
   fst (processEvent ''t2'' login_event
          (snd (processEvent ''t1'' login_event EventStore_constructor))) = Inr False \<and>
   map action (stdout (snd (processEvent ''t2'' login_event
          (snd (processEvent ''t1'' login_event EventStore_constructor)))))
     = [''EVENT_CONSUMED'', ''EVENT_CONSUMED''] \<and>
   map line_eventId (stdout (snd (processEvent ''t2'' login_event
          (snd (processEvent ''t1'' login_event EventStore_constructor)))))
     = [JStr ''event-123'', JStr ''event-123''] \<and>
   getEventCount (snd (processEvent ''t2'' login_event
          (snd (processEvent ''t1'' login_event EventStore_constructor)))) = 1"
  by (simp add: processEvent_def processEvent_try_def get_prop_def login_event_def
        EventStore_constructor_def console_log_def consumed_line_def addEvent_def
        template_literal_def Set_has_def Set_add_def Array_push_def getEventCount_def Let_def)

text \<open>
  C6. Let the event of a deserialized message lack eventId, userId or eventType. If the
  event is an object, or any value but null, \<open>processEvent\<close> returns false and leaves the
  state as it was: nothing is stored and nothing is printed. \<open>handleMessage\<close> on the
  message, the event null included (for null the property read raises inside
  \<open>handleMessage\<close>, before \<open>processEvent\<close> is called), returns normally with the state
  unchanged. And \<open>handleMessage\<close> returns normally on every message, whatever
  \<^verbatim>\<open>JSON.parse\<close> makes of it: no error leaves it.
\<close>

theorem consumer_drops_incomplete:
  "(lacks event ''eventId'' \<or> lacks event ''userId'' \<or> lacks event ''eventType'' \<longrightarrow>
      (\<not> nullish event \<longrightarrow> processEvent now event w = (Inr False, w)) \<and>
      (msg_value message = Some s \<and> JSON_parse s = Inr event \<longrightarrow>
         handleMessage JSON_parse now topic part message w = (Inr (), w))) \<and>
   fst (handleMessage JSON_parse now topic part message w) = Inr ()"
proof -
  have "processEvent now event w = (Inr False, w)"
    if "lacks event ''eventId'' \<or> lacks event ''userId'' \<or> lacks event ''eventType''"
      and "\<not> nullish event"
    using that by (intro processEvent_falsy) (auto simp add: lacks_def)
  moreover have "handleMessage JSON_parse now topic part message w = (Inr (), w)"
    if "lacks event ''eventId'' \<or> lacks event ''userId'' \<or> lacks event ''eventType''"
      and "msg_value message = Some s" and "JSON_parse s = Inr event"
    using that(2,3)
  proof (rule handleMessage_falsy)
    from that(1) show "nullish event \<or> \<not> truthy (prop_of event ''eventId'') \<or>
       \<not> truthy (prop_of event ''userId'') \<or> \<not> truthy (prop_of event ''eventType'')"
      by (auto simp add: lacks_def)
  qed
  ultimately show ?thesis by (simp add: handleMessage_returns)
qed

text \<open>An event without userId, and the message whose value is the JSON text null.\<close>

theorem consumer_drops_incomplete_witness:
  "lacks no_userId ''userId'' \<and> \<not> nullish no_userId \<and> lacks JNull ''eventId'' \<and>
   processEvent ''2024-01-01T00:00:00.000Z'' no_userId EventStore_constructor
     = (Inr False, EventStore_constructor) \<and>
   handleMessage (\<lambda>s. Inr no_userId) ''2024-01-01T00:00:00.000Z'' ''user-activity-events'' 0
       \<lparr>msg_value = Some ''{}'', msg_offset = ''17''\<rparr> EventStore_constructor
     = (Inr (), EventStore_constructor) \<and>
   handleMessage (\<lambda>s. Inr JNull) ''2024-01-01T00:00:00.000Z'' ''user-activity-events'' 0
       \<lparr>msg_value = Some ''null'', msg_offset = ''18''\<rparr> EventStore_constructor
     = (Inr (), EventStore_constructor)"
  using consumer_drops_incomplete [of no_userId "''2024-01-01T00:00:00.000Z''"
      EventStore_constructor "\<lparr>msg_value = Some ''{}'', msg_offset = ''17''\<rparr>" "''{}''"
      "\<lambda>s. Inr no_userId" "''user-activity-events''" 0]
    consumer_drops_incomplete [of JNull "''2024-01-01T00:00:00.000Z''"
      EventStore_constructor "\<lparr>msg_value = Some ''null'', msg_offset = ''18''\<rparr>" "''null''"
      "\<lambda>s. Inr JNull" "''user-activity-events''" 0]
  by (simp add: lacks_def no_userId_def)

section \<open>The ingestion handler and the producer\<close>

text \<open>
  C7, as the code has it. Take a request with a body that passes validation. While the
  producer is not connected, \<open>publishEvent\<close> raises "Producer is not connected to Kafka"
  and hands nothing to \<^verbatim>\<open>send\<close>, and \<open>generateEvent\<close> answers 503, service unavailable.
  While it is connected and the broker rejects the message with an error whose message
  does not contain "not connected", \<open>generateEvent\<close> answers 500, internal server error,
  after one send.
\<close>

theorem publish_failure_conditions:
  assumes "\<not> nullish req_body"
    and "valid (validateEventPayload
           (JObj fresh [(''userId'', prop_of req_body ''userId''),
                        (''eventType'', prop_of req_body ''eventType''),
                        (''payload'', prop_of req_body ''payload'')]))"
  shows "publishEvent JSON_stringify send False event
           = (Inl (JsError ''Error'' ''Producer is not connected to Kafka''), []) \<and>
         generateEvent JSON_stringify send False uuid now fresh req_body
           = (\<lparr>statusCode = 503,
               json = [(''error'', Str ''Service unavailable''),
                       (''message'', Str ''Kafka producer is not available'')]\<rparr>, []) \<and>
         ((\<forall>m. send m = Inl error) \<and> \<not> String_includes (err_message error) ''not connected''
            \<longrightarrow> fst (generateEvent JSON_stringify send True uuid now fresh req_body)
                  = \<lparr>statusCode = 500,
                     json = [(''error'', Str ''Internal server error''),
                             (''message'', Str ''Failed to publish event'')]\<rparr> \<and>
                length (snd (generateEvent JSON_stringify send True uuid now fresh req_body)) = 1)"
proof -
  have 1: "publishEvent JSON_stringify send False event
           = (Inl (JsError ''Error'' ''Producer is not connected to Kafka''), [])" for event
    by (simp add: publishEvent_def)
  have 2: "generateEvent JSON_stringify send False uuid now fresh req_body
           = (\<lparr>statusCode = 503,
               json = [(''error'', Str ''Service unavailable''),
                       (''message'', Str ''Kafka producer is not available'')]\<rparr>, [])"
    using assms
    by (simp add: generateEvent_def generateEvent_try_def Let_def 1)
  have 3: "fst (generateEvent JSON_stringify send True uuid now fresh req_body)
                  = \<lparr>statusCode = 500,
                     json = [(''error'', Str ''Internal server error''),
                             (''message'', Str ''Failed to publish event'')]\<rparr> \<and>
                length (snd (generateEvent JSON_stringify send True uuid now fresh req_body)) = 1"
    if "\<forall>m. send m = Inl error" and "\<not> String_includes (err_message error) ''not connected''"
    using assms that
    by (simp add: generateEvent_def generateEvent_try_def get_prop_def Let_def publishEvent_def
          publishEvent_try_def)
  from 1 2 3 show ?thesis by blast
qed

text \<open>The login request, with a broker that rejects every message with "Kafka error".\<close>

theorem publish_failure_conditions_witness:
  "\<not> nullish login_request \<and>
   valid (validateEventPayload
     (JObj 1 [(''userId'', prop_of login_request ''userId''),
              (''eventType'', prop_of login_request ''eventType''),
              (''payload'', prop_of login_request ''payload'')])) \<and>
   \<not> String_includes ''Kafka error'' ''not connected'' \<and>
   statusCode (fst (generateEvent (\<lambda>v. ''{}'') (\<lambda>m. Inl (JsError ''Error'' ''Kafka error'')) False
       ''id-1'' ''2024-01-01T00:00:00.000Z'' 1 login_request)) = 503 \<and>
   snd (generateEvent (\<lambda>v. ''{}'') (\<lambda>m. Inl (JsError ''Error'' ''Kafka error'')) False
       ''id-1'' ''2024-01-01T00:00:00.000Z'' 1 login_request) = [] \<and>
   statusCode (fst (generateEvent (\<lambda>v. ''{}'') (\<lambda>m. Inl (JsError ''Error'' ''Kafka error'')) True
       ''id-1'' ''2024-01-01T00:00:00.000Z'' 1 login_request)) = 500"
  using publish_failure_conditions [of login_request 1 "\<lambda>v. ''{}''"
      "\<lambda>m. Inl (JsError ''Error'' ''Kafka error'')" JNull "''id-1''"
      "''2024-01-01T00:00:00.000Z''" "JsError ''Error'' ''Kafka error''"]
  by (simp add: login_request_def validateEventPayload_def VALID_EVENT_TYPES_def)

text \<open>
  C7 as stated fails when the connected producer's broker rejects with an error whose
  message contains "not connected": the answer is the 503 of the not-connected case,
  although one message was sent.
\<close>

theorem broker_not_connected_counterexample:
  "fst (generateEvent (\<lambda>v. ''{}'')
          (\<lambda>m. Inl (JsError ''KafkaJSError'' ''Broker not connected'')) True
          ''id-1'' ''2024-01-01T00:00:00.000Z'' 1 login_request)
     = \<lparr>statusCode = 503,
        json = [(''error'', Str ''Service unavailable''),
                (''message'', Str ''Kafka producer is not available'')]\<rparr> \<and>
   length (snd (generateEvent (\<lambda>v. ''{}'')
          (\<lambda>m. Inl (JsError ''KafkaJSError'' ''Broker not connected'')) True
          ''id-1'' ''2024-01-01T00:00:00.000Z'' 1 login_request)) = 1"
  by (simp add: generateEvent_def generateEvent_try_def get_prop_def Let_def publishEvent_def
        publishEvent_try_def login_request_def validateEventPayload_def VALID_EVENT_TYPES_def)

section \<open>The health check\<close>

text \<open>
  C10. The body's status is "ok" whatever the producer's connection state. With the
  producer disconnected the answer is the code 503 and a body whose status is still "ok"
  and whose producer field is "disconnected"; with the producer connected it is the code
  200 and the same body but for the producer field, which is "connected". The other
  fields (timestamp, service, processed events) do not depend on the connection state.
\<close>

theorem healthCheck_status_ok:
  "status (snd (healthCheck now isConnected w)) = ''ok'' \<and>
   healthCheck now False w
     = (503, \<lparr>status = ''ok'', timestamp = now, service = ''kafka-event-microservice'',
              kafka_producer = ''disconnected'',
              eventStore_processedEvents = getEventCount w\<rparr>) \<and>
   healthCheck now True w
     = (200, \<lparr>status = ''ok'', timestamp = now, service = ''kafka-event-microservice'',
              kafka_producer = ''connected'',
              eventStore_processedEvents = getEventCount w\<rparr>) \<and>
   fst (healthCheck now False w) \<noteq> fst (healthCheck now True w) \<and>
   kafka_producer (snd (healthCheck now False w)) \<noteq> kafka_producer (snd (healthCheck now True w)) \<and>
   snd (healthCheck now False w)
     = (snd (healthCheck now True w))\<lparr>kafka_producer := ''disconnected''\<rparr>"
  by (simp add: healthCheck_def)

end
